theory Spec2Isabelle
  imports Main
begin

section \<open>Data model\<close>

text \<open>
  The source file \<^verbatim>\<open>src/lib/dark-mode.svelte.ts\<close> declares
  \<^verbatim>\<open>type ThemeMode = 'light' | 'dark' | undefined\<close>. The two string literals are the
  constructors of \<open>theme\<close>, \<^verbatim>\<open>undefined\<close> is \<open>None\<close>, and \<open>token\<close> gives back the
  JavaScript string a literal stands for.
\<close>

datatype theme = Light | Dark

type_synonym ThemeMode = "theme option"

fun token :: "theme \<Rightarrow> string" where
  "token Light = ''light''"
| "token Dark = ''dark''"

text \<open>
  The class reaches its surroundings through three globals: \<^verbatim>\<open>matchMedia\<close>,
  \<^verbatim>\<open>localStorage\<close> and \<^verbatim>\<open>document\<close>. A \<open>page\<close> holds what the class reads and writes
  of them: the result of \<^verbatim>\<open>matchMedia(q).matches\<close> for every query \<open>q\<close>, the storage
  as a map from keys to strings, and the class list and \<^verbatim>\<open>style.colorScheme\<close> of
  \<^verbatim>\<open>document.documentElement\<close>. Outside a browser these globals do not exist
  (\<open>window = None\<close>) and naming one of them raises a \<^verbatim>\<open>ReferenceError\<close>.
  \<open>DEV\<close> and \<open>BROWSER\<close> are the two flags imported from \<^verbatim>\<open>esm-env\<close>.
\<close>

datatype error = ReferenceError

record page =
  matchMedia :: "string \<Rightarrow> bool"
  localStorage :: "string \<rightharpoonup> string"
  classList :: "string list"
  colorScheme :: string

record env =
  DEV :: bool
  BROWSER :: bool
  window :: "page option"

text \<open>
  An instance of the class: its three private fields, on top of the environment it lives
  in. \<open>listening\<close> records that the constructor has registered its \<^verbatim>\<open>change\<close> listener.
\<close>

record DarkMode = env +
  defaultMode :: theme
  modeStore :: ThemeMode
  prefersStore :: ThemeMode
  listening :: bool

section \<open>JavaScript primitives\<close>

text \<open>Sequencing of two steps, the first of which may throw.\<close>

definition andThen :: "error + 'a \<Rightarrow> ('a \<Rightarrow> error + 'b) \<Rightarrow> error + 'b" where
  "andThen r f = (case r of Inl e \<Rightarrow> Inl e | Inr v \<Rightarrow> f v)"

text \<open>
  The operator \<^verbatim>\<open>??\<close>: \<open>nullish a b\<close> is \<^verbatim>\<open>a ?? b\<close> where \<open>b\<close> may be undefined as well,
  \<open>orDefault a b\<close> where it may not.
\<close>

definition nullish :: "'a option \<Rightarrow> 'a option \<Rightarrow> 'a option" where
  "nullish a b = (case a of None \<Rightarrow> b | Some v \<Rightarrow> Some v)"

definition orDefault :: "'a option \<Rightarrow> 'a \<Rightarrow> 'a" where
  "orDefault a b = (case a of None \<Rightarrow> b | Some v \<Rightarrow> v)"

text \<open>
  \<^verbatim>\<open>String.prototype.toLowerCase\<close> on strings of code units below 256: the letters
  \<^verbatim>\<open>A\<close> to \<^verbatim>\<open>Z\<close> (65 to 90) and the capital letters of Latin-1 (192 to 222 without the
  multiplication sign 215) move up by 32, every other code unit stays.
\<close>

definition lowerChar :: "char \<Rightarrow> char" where
  "lowerChar c =
     (let n = (of_char c :: nat)
      in if (65 \<le> n \<and> n \<le> 90) \<or> (192 \<le> n \<and> n \<le> 222 \<and> n \<noteq> 215)
         then char_of (n + 32) else c)"

definition toLowerCase :: "string \<Rightarrow> string" where
  "toLowerCase s = map lowerChar s"

text \<open>
  \<^verbatim>\<open>DOMTokenList.toggle(token, force)\<close>: with \<open>force\<close> the token is added unless it is
  there, without it the token is removed.
\<close>

definition classList_toggle :: "string \<Rightarrow> bool \<Rightarrow> string list \<Rightarrow> string list" where
  "classList_toggle tok force xs =
     (if force then (if tok \<in> set xs then xs else xs @ [tok]) else removeAll tok xs)"

section \<open>The class DarkMode\<close>

definition isBrowser :: "'a env_scheme \<Rightarrow> bool" where
  "isBrowser e = (if DEV e then True else BROWSER e)"

definition mode :: "DarkMode \<Rightarrow> theme" where
  "mode d = orDefault (nullish (modeStore d) (prefersStore d)) (defaultMode d)"

definition getPrefersMode :: "'a env_scheme \<Rightarrow> error + ThemeMode" where
  "getPrefersMode e =
     (if \<not> isBrowser e then Inr None
      else case window e of
        None \<Rightarrow> Inl ReferenceError
      | Some p \<Rightarrow>
          if matchMedia p ''(prefers-color-scheme: dark)'' then Inr (Some Dark)
          else if matchMedia p ''(prefers-color-scheme: light)'' then Inr (Some Light)
          else Inr None)"

definition load :: "'a env_scheme \<Rightarrow> error + ThemeMode" where
  "load e =
     (if \<not> isBrowser e then Inr None
      else case window e of
        None \<Rightarrow> Inl ReferenceError
      | Some p \<Rightarrow>
          (case localStorage p ''dark-mode'' of
             None \<Rightarrow> Inr None
           | Some localStoreItem \<Rightarrow>
               if localStoreItem \<noteq> [] then
                 (let lowered = toLowerCase localStoreItem
                  in if lowered = ''light'' then Inr (Some Light)
                     else if lowered = ''dark'' then Inr (Some Dark)
                     else Inr None)
               else Inr None))"

definition getInitialMode :: "'a env_scheme \<Rightarrow> error + ThemeMode" where
  "getInitialMode e =
     andThen (load e) (\<lambda>saved.
       case saved of
         Some m \<Rightarrow>
           if m = Light then Inr (Some Light)
           else if m = Dark then Inr (Some Dark)
           else Inr None
       | None \<Rightarrow> Inr None)"

definition updateDOM :: "DarkMode \<Rightarrow> error + DarkMode" where
  "updateDOM d =
     (if \<not> isBrowser d then Inr d
      else case window d of
        None \<Rightarrow> Inl ReferenceError
      | Some p \<Rightarrow>
          (let isDark = (mode d = Dark)
           in Inr (d\<lparr>window := Some (p\<lparr>
                classList := classList_toggle ''dark'' isDark (classList p),
                colorScheme := (if isDark then ''dark'' else ''light'')\<rparr>)\<rparr>)))"

definition store :: "DarkMode \<Rightarrow> error + DarkMode" where
  "store d =
     (if \<not> isBrowser d then Inr d
      else case window d of
        None \<Rightarrow> Inl ReferenceError
      | Some p \<Rightarrow>
          (case modeStore d of
             Some m \<Rightarrow>
               Inr (d\<lparr>window := Some (p\<lparr>localStorage := (localStorage p)(''dark-mode'' \<mapsto> token m)\<rparr>)\<rparr>)
           | None \<Rightarrow>
               Inr (d\<lparr>window := Some (p\<lparr>localStorage := (localStorage p)(''dark-mode'' := None)\<rparr>)\<rparr>)))"

text \<open>The setter of \<^verbatim>\<open>mode\<close>.\<close>

definition set_mode :: "ThemeMode \<Rightarrow> DarkMode \<Rightarrow> error + DarkMode" where
  "set_mode m d = andThen (updateDOM (d\<lparr>modeStore := m\<rparr>)) store"

definition toggle :: "DarkMode \<Rightarrow> error + DarkMode" where
  "toggle d =
     andThen (updateDOM
       (if modeStore d = Some Light then d\<lparr>modeStore := Some Dark\<rparr>
        else if modeStore d = Some Dark then d\<lparr>modeStore := Some Light\<rparr>
        else if modeStore d = None \<and> defaultMode d = Light then d\<lparr>modeStore := Some Dark\<rparr>
        else d)) store"

text \<open>
  The listener the constructor registers for \<^verbatim>\<open>change\<close> events of the dark query; its
  argument is \<^verbatim>\<open>e.matches\<close>. \<open>dispatchChange\<close> is the environment delivering such an
  event: it reaches the instance only through a registered listener.
\<close>

definition changeListener :: "bool \<Rightarrow> DarkMode \<Rightarrow> error + DarkMode" where
  "changeListener matches d =
     updateDOM (d\<lparr>prefersStore := Some (if matches then Dark else Light)\<rparr>)"

definition dispatchChange :: "bool \<Rightarrow> DarkMode \<Rightarrow> error + DarkMode" where
  "dispatchChange matches d = (if listening d then changeListener matches d else Inr d)"

text \<open>
  \<^verbatim>\<open>new DarkMode()\<close>: the field initialisers in their order, then the body of the
  constructor.
\<close>

definition new_DarkMode :: "env \<Rightarrow> error + DarkMode" where
  "new_DarkMode e =
     andThen (getInitialMode e) (\<lambda>initialMode.
     andThen (getPrefersMode e) (\<lambda>prefersMode.
     andThen (updateDOM \<lparr>DEV = DEV e, BROWSER = BROWSER e, window = window e,
                defaultMode = Light, modeStore = initialMode,
                prefersStore = prefersMode, listening = False\<rparr>) (\<lambda>d.
       if isBrowser d then
         (case window d of
            None \<Rightarrow> Inl ReferenceError
          | Some p \<Rightarrow> Inr (d\<lparr>listening := True\<rparr>))
       else Inr d)))"

section \<open>Derived notions\<close>

text \<open>
  The environment of a running instance does not change its flags, and the constructor
  has gone through every guarded access once. So an instance that exists is
  \<open>consistent\<close>: wherever \<open>isBrowser\<close> holds the globals are there, \<open>defaultMode\<close> is
  still its initial value, and the listener is registered exactly in a browser.
\<close>

definition consistent :: "DarkMode \<Rightarrow> bool" where
  "consistent d \<longleftrightarrow>
     (isBrowser d \<longrightarrow> window d \<noteq> None) \<and> defaultMode d = Light \<and> listening d = isBrowser d"

text \<open>
  The code takes a display context to exist when \<open>isBrowser\<close> holds; it can use one
  when the globals are there as well.
\<close>

definition displayContext :: "'a env_scheme \<Rightarrow> bool" where
  "displayContext e \<longleftrightarrow> isBrowser e \<and> window e \<noteq> None"

text \<open>The persisted entry: what \<^verbatim>\<open>localStorage.getItem('dark-mode')\<close> would return.\<close>

definition persisted :: "'a env_scheme \<Rightarrow> string option" where
  "persisted e = (case window e of None \<Rightarrow> None | Some p \<Rightarrow> localStorage p ''dark-mode'')"

text \<open>
  The reading of an entry in the words of the specification: after case folding the
  tokens \<^verbatim>\<open>light\<close> and \<^verbatim>\<open>dark\<close> are accepted, every other content counts as an
  absent entry. The code is compared with it below.
\<close>

fun accepted :: "string option \<Rightarrow> ThemeMode" where
  "accepted None = None"
| "accepted (Some v) =
     (if toLowerCase v = ''light'' then Some Light
      else if toLowerCase v = ''dark'' then Some Dark
      else None)"

text \<open>The root element shows the resolved mode.\<close>

definition domInSync :: "DarkMode \<Rightarrow> bool" where
  "domInSync d =
     (case window d of
        None \<Rightarrow> False
      | Some p \<Rightarrow>
          (''dark'' \<in> set (classList p)) = (mode d = Dark) \<and>
          colorScheme p = (if mode d = Dark then ''dark'' else ''light''))"

fun opposite :: "theme \<Rightarrow> theme" where
  "opposite Light = Dark"
| "opposite Dark = Light"

text \<open>The value \<open>toggle\<close> assigns to \<open>modeStore\<close>, read off its chain of branches.\<close>

definition toggled :: "DarkMode \<Rightarrow> ThemeMode" where
  "toggled d =
     (case modeStore d of
        Some m \<Rightarrow> Some (opposite m)
      | None \<Rightarrow> if defaultMode d = Light then Some Dark else None)"

text \<open>Calls from outside, and sequences of them.\<close>

datatype op = SetMode ThemeMode | Toggle | Change bool

fun apply_op :: "op \<Rightarrow> DarkMode \<Rightarrow> error + DarkMode" where
  "apply_op (SetMode m) d = set_mode m d"
| "apply_op Toggle d = toggle d"
| "apply_op (Change b) d = dispatchChange b d"

fun run :: "op list \<Rightarrow> DarkMode \<Rightarrow> error + DarkMode" where
  "run [] d = Inr d"
| "run (x # xs) d = andThen (apply_op x d) (run xs)"

text \<open>
  Sample environments: a page that has just been loaded, with the persisted entry \<open>v\<close>
  and the answers \<open>dk\<close> and \<open>lt\<close> of the two media queries, in a production build
  running in a browser; and a build on a server, where no global exists, in development
  and in production.
\<close>

definition media :: "bool \<Rightarrow> bool \<Rightarrow> string \<Rightarrow> bool" where
  "media dk lt q =
     (if q = ''(prefers-color-scheme: dark)'' then dk
      else if q = ''(prefers-color-scheme: light)'' then lt
      else False)"

definition freshPage :: "string option \<Rightarrow> bool \<Rightarrow> bool \<Rightarrow> page" where
  "freshPage v dk lt =
     \<lparr>matchMedia = media dk lt,
      localStorage = (\<lambda>k. if k = ''dark-mode'' then v else None),
      classList = [], colorScheme = []\<rparr>"

definition browserEnv :: "string option \<Rightarrow> bool \<Rightarrow> bool \<Rightarrow> env" where
  "browserEnv v dk lt = \<lparr>DEV = False, BROWSER = True, window = Some (freshPage v dk lt)\<rparr>"

definition devServerEnv :: env where
  "devServerEnv = \<lparr>DEV = True, BROWSER = False, window = None\<rparr>"

definition prodServerEnv :: env where
  "prodServerEnv = \<lparr>DEV = False, BROWSER = False, window = None\<rparr>"

text \<open>
  The instance the constructor builds on a fresh page with no persisted entry whose
  system prefers dark, and the one it builds on a production server.
\<close>

definition osDarkInstance :: DarkMode where
  "osDarkInstance =
     \<lparr>DEV = False, BROWSER = True,
      window = Some ((freshPage None True False)\<lparr>classList := [''dark''], colorScheme := ''dark''\<rparr>),
      defaultMode = Light, modeStore = None, prefersStore = Some Dark, listening = True\<rparr>"

definition serverInstance :: DarkMode where
  "serverInstance =
     \<lparr>DEV = False, BROWSER = False, window = None,
      defaultMode = Light, modeStore = None, prefersStore = None, listening = False\<rparr>"

section \<open>Basic facts\<close>

lemma isBrowser_fields [simp]:
  "isBrowser (d\<lparr>modeStore := m\<rparr>) = isBrowser d"
  "isBrowser (d\<lparr>prefersStore := m\<rparr>) = isBrowser d"
  "isBrowser (d\<lparr>window := w\<rparr>) = isBrowser d"
  "isBrowser (d\<lparr>listening := b\<rparr>) = isBrowser d"
  by (simp_all add: isBrowser_def)

lemma opposite_opposite [simp]: "opposite (opposite m) = m"
  by (cases m) simp_all

lemma theme_neq: "(m \<noteq> Dark) = (m = Light)" "(m \<noteq> Light) = (m = Dark)"
  by (cases m; simp)+

lemma mode_cases:
  "mode d =
     (case modeStore d of
        Some m \<Rightarrow> m
      | None \<Rightarrow> (case prefersStore d of Some p \<Rightarrow> p | None \<Rightarrow> defaultMode d))"
  by (simp add: mode_def nullish_def orDefault_def split: option.splits)

lemma classList_toggle_member:
  "(tok \<in> set (classList_toggle tok force xs)) = force"
  by (simp add: classList_toggle_def)

lemma updateDOM_outside: "\<not> isBrowser d \<Longrightarrow> updateDOM d = Inr d"
  by (simp add: updateDOM_def)

lemma store_outside: "\<not> isBrowser d \<Longrightarrow> store d = Inr d"
  by (simp add: store_def)

lemma updateDOM_inside:
  "isBrowser d \<Longrightarrow> window d = Some p \<Longrightarrow>
   updateDOM d = Inr (d\<lparr>window := Some (p\<lparr>
     classList := classList_toggle ''dark'' (mode d = Dark) (classList p),
     colorScheme := (if mode d = Dark then ''dark'' else ''light'')\<rparr>)\<rparr>)"
  by (simp add: updateDOM_def)

lemma store_inside:
  "isBrowser d \<Longrightarrow> window d = Some p \<Longrightarrow>
   store d = Inr (d\<lparr>window := Some (p\<lparr>localStorage :=
     (localStorage p)(''dark-mode'' := map_option token (modeStore d))\<rparr>)\<rparr>)"
  by (simp add: store_def split: option.splits)

lemma set_mode_outside: "\<not> isBrowser d \<Longrightarrow> set_mode m d = Inr (d\<lparr>modeStore := m\<rparr>)"
  by (simp add: set_mode_def andThen_def updateDOM_outside store_outside)

lemma set_mode_inside:
  "isBrowser d \<Longrightarrow> window d = Some p \<Longrightarrow>
   set_mode m d = Inr (d\<lparr>modeStore := m, window := Some (p\<lparr>
     classList := classList_toggle ''dark'' (mode (d\<lparr>modeStore := m\<rparr>) = Dark) (classList p),
     colorScheme := (if mode (d\<lparr>modeStore := m\<rparr>) = Dark then ''dark'' else ''light''),
     localStorage := (localStorage p)(''dark-mode'' := map_option token m)\<rparr>)\<rparr>)"
  by (simp add: set_mode_def andThen_def updateDOM_inside store_inside)

lemma toggle_set_mode: "toggle d = set_mode (toggled d) d"
proof (cases "modeStore d")
  case None
  then have same: "d\<lparr>modeStore := None\<rparr> = d" by (cases d) simp
  show ?thesis by (simp add: toggle_def set_mode_def toggled_def None same)
next
  case (Some m)
  then show ?thesis by (cases m) (simp_all add: toggle_def set_mode_def toggled_def)
qed

lemma changeListener_inside:
  "isBrowser d \<Longrightarrow> window d = Some p \<Longrightarrow>
   changeListener b d = Inr (d\<lparr>prefersStore := Some (if b then Dark else Light),
     window := Some (p\<lparr>
       classList := classList_toggle ''dark''
         (mode (d\<lparr>prefersStore := Some (if b then Dark else Light)\<rparr>) = Dark) (classList p),
       colorScheme := (if mode (d\<lparr>prefersStore := Some (if b then Dark else Light)\<rparr>) = Dark
                       then ''dark'' else ''light'')\<rparr>)\<rparr>)"
  by (simp add: changeListener_def updateDOM_inside)

lemma changeListener_outside:
  "\<not> isBrowser d \<Longrightarrow>
   changeListener b d = Inr (d\<lparr>prefersStore := Some (if b then Dark else Light)\<rparr>)"
  by (simp add: changeListener_def updateDOM_outside)

lemma isBrowser_iff: "isBrowser e = (DEV e \<or> BROWSER e)"
  by (simp add: isBrowser_def)

lemma mode_fields [simp]:
  "mode (d\<lparr>window := w\<rparr>) = mode d"
  "mode (d\<lparr>listening := b\<rparr>) = mode d"
  by (simp_all add: mode_def)

lemma toLowerCase_Nil [simp]: "toLowerCase [] = []"
  by (simp add: toLowerCase_def)

lemma load_outside: "\<not> isBrowser e \<Longrightarrow> load e = Inr None"
  by (simp add: load_def)

lemma load_inside:
  "isBrowser e \<Longrightarrow> window e = Some p \<Longrightarrow> load e = Inr (accepted (localStorage p ''dark-mode''))"
  by (cases "localStorage p ''dark-mode''") (auto simp: load_def Let_def)

lemma getInitialMode_load: "getInitialMode e = load e"
proof (cases "load e")
  case (Inl err)
  then show ?thesis by (simp add: getInitialMode_def andThen_def)
next
  case (Inr saved)
  then show ?thesis
    by (cases saved) (auto simp: getInitialMode_def andThen_def theme_neq)
qed

lemma getPrefersMode_outside: "\<not> isBrowser e \<Longrightarrow> getPrefersMode e = Inr None"
  by (simp add: getPrefersMode_def)

lemma getPrefersMode_inside:
  "isBrowser e \<Longrightarrow> window e = Some p \<Longrightarrow>
   getPrefersMode e =
     Inr (if matchMedia p ''(prefers-color-scheme: dark)'' then Some Dark
          else if matchMedia p ''(prefers-color-scheme: light)'' then Some Light
          else None)"
  by (simp add: getPrefersMode_def)

lemma new_DarkMode_outside:
  assumes "\<not> isBrowser e"
  shows "new_DarkMode e =
     Inr \<lparr>DEV = DEV e, BROWSER = BROWSER e, window = window e, defaultMode = Light,
          modeStore = None, prefersStore = None, listening = False\<rparr>"
proof -
  let ?d = "\<lparr>DEV = DEV e, BROWSER = BROWSER e, window = window e, defaultMode = Light,
     modeStore = None, prefersStore = None, listening = False\<rparr>"
  have b: "\<not> isBrowser ?d" using assms by (simp add: isBrowser_iff)
  show ?thesis
    using assms
    by (simp add: new_DarkMode_def getInitialMode_load load_outside getPrefersMode_outside
          andThen_def updateDOM_outside [OF b] b)
qed

lemma new_DarkMode_inside:
  assumes "isBrowser e" and "window e = Some p"
  shows "\<exists>d. new_DarkMode e = Inr d \<and>
     modeStore d = accepted (localStorage p ''dark-mode'') \<and>
     prefersStore d =
       (if matchMedia p ''(prefers-color-scheme: dark)'' then Some Dark
        else if matchMedia p ''(prefers-color-scheme: light)'' then Some Light
        else None) \<and>
     defaultMode d = Light \<and> listening d \<and> DEV d = DEV e \<and> BROWSER d = BROWSER e \<and>
     window d = Some (p\<lparr>
       classList := classList_toggle ''dark'' (mode d = Dark) (classList p),
       colorScheme := (if mode d = Dark then ''dark'' else ''light'')\<rparr>)"
proof -
  define d0 where "d0 =
    \<lparr>DEV = DEV e, BROWSER = BROWSER e, window = window e, defaultMode = Light,
     modeStore = accepted (localStorage p ''dark-mode''),
     prefersStore =
       (if matchMedia p ''(prefers-color-scheme: dark)'' then Some Dark
        else if matchMedia p ''(prefers-color-scheme: light)'' then Some Light
        else None),
     listening = False\<rparr>"
  define d1 where "d1 = d0\<lparr>window := Some (p\<lparr>
       classList := classList_toggle ''dark'' (mode d0 = Dark) (classList p),
       colorScheme := (if mode d0 = Dark then ''dark'' else ''light'')\<rparr>)\<rparr>"
  have b: "isBrowser d0" using assms(1) by (simp add: isBrowser_iff d0_def)
  have w: "window d0 = Some p" using assms(2) by (simp add: d0_def)
  have upd: "updateDOM d0 = Inr d1"
    unfolding d1_def by (rule updateDOM_inside [OF b w])
  have b1: "isBrowser d1" using b by (simp add: d1_def)
  have "new_DarkMode e = andThen (updateDOM d0) (\<lambda>d.
       if isBrowser d then
         (case window d of
            None \<Rightarrow> Inl ReferenceError
          | Some p \<Rightarrow> Inr (d\<lparr>listening := True\<rparr>))
       else Inr d)"
    using assms
    by (simp add: new_DarkMode_def getInitialMode_load load_inside getPrefersMode_inside
          andThen_def d0_def)
  then have "new_DarkMode e = Inr (d1\<lparr>listening := True\<rparr>)"
    by (simp add: upd andThen_def b1) (simp add: d1_def)
  moreover have "mode (d1\<lparr>listening := True\<rparr>) = mode d0"
    by (simp add: d1_def)
  ultimately show ?thesis
    by (simp add: d1_def) (simp add: d0_def)
qed

lemma new_DarkMode_total:
  assumes "isBrowser e \<longrightarrow> window e \<noteq> None"
  shows "\<exists>d. new_DarkMode e = Inr d \<and> consistent d \<and> DEV d = DEV e \<and> BROWSER d = BROWSER e"
proof (cases "isBrowser e")
  case True
  with assms obtain p where "window e = Some p" by auto
  from new_DarkMode_inside [OF True this] obtain d where
    "new_DarkMode e = Inr d" "defaultMode d = Light" "listening d" "DEV d = DEV e"
    "BROWSER d = BROWSER e" "window d \<noteq> None"
    by auto
  with True show ?thesis by (auto simp: consistent_def isBrowser_iff)
next
  case False
  then show ?thesis
    by (simp add: new_DarkMode_outside consistent_def isBrowser_iff)
qed

lemma new_DarkMode_throws:
  "isBrowser e \<Longrightarrow> window e = None \<Longrightarrow> new_DarkMode e = Inl ReferenceError"
  by (simp add: new_DarkMode_def getInitialMode_load load_def andThen_def)

lemma set_mode_consistent:
  assumes "consistent d"
  shows "\<exists>d'. set_mode m d = Inr d' \<and> consistent d' \<and> modeStore d' = m \<and>
     prefersStore d' = prefersStore d \<and> defaultMode d' = defaultMode d \<and>
     isBrowser d' = isBrowser d \<and>
     (isBrowser d \<longrightarrow> persisted d' = map_option token m \<and> domInSync d') \<and>
     (\<not> isBrowser d \<longrightarrow> window d' = window d)"
proof (cases "isBrowser d")
  case True
  with assms obtain p where p: "window d = Some p" by (auto simp: consistent_def)
  define d' where "d' = d\<lparr>modeStore := m, window := Some (p\<lparr>
     classList := classList_toggle ''dark'' (mode (d\<lparr>modeStore := m\<rparr>) = Dark) (classList p),
     colorScheme := (if mode (d\<lparr>modeStore := m\<rparr>) = Dark then ''dark'' else ''light''),
     localStorage := (localStorage p)(''dark-mode'' := map_option token m)\<rparr>)\<rparr>"
  have r: "set_mode m d = Inr d'"
    unfolding d'_def by (rule set_mode_inside [OF True p])
  have "domInSync d'"
    by (simp add: domInSync_def d'_def classList_toggle_member)
  moreover have "persisted d' = map_option token m"
    by (simp add: persisted_def d'_def)
  moreover have "consistent d'"
    using assms True by (simp add: consistent_def d'_def)
  ultimately show ?thesis
    using r True by (simp add: d'_def)
next
  case False
  with assms show ?thesis by (simp add: set_mode_outside consistent_def)
qed

lemma toggle_consistent:
  assumes "consistent d"
  shows "\<exists>d'. toggle d = Inr d' \<and> consistent d' \<and> modeStore d' = toggled d \<and>
     prefersStore d' = prefersStore d \<and> defaultMode d' = defaultMode d \<and>
     isBrowser d' = isBrowser d \<and>
     (isBrowser d \<longrightarrow> persisted d' = map_option token (toggled d) \<and> domInSync d') \<and>
     (\<not> isBrowser d \<longrightarrow> window d' = window d)"
  using set_mode_consistent [OF assms] by (simp add: toggle_set_mode)

lemma dispatchChange_consistent:
  assumes "consistent d"
  shows "\<exists>d'. dispatchChange b d = Inr d' \<and> consistent d' \<and> modeStore d' = modeStore d \<and>
     prefersStore d' = (if isBrowser d then Some (if b then Dark else Light) else prefersStore d) \<and>
     defaultMode d' = defaultMode d \<and> isBrowser d' = isBrowser d \<and>
     persisted d' = persisted d \<and>
     (isBrowser d \<longrightarrow> domInSync d') \<and>
     (\<not> isBrowser d \<longrightarrow> d' = d)"
proof (cases "isBrowser d")
  case True
  with assms obtain p where p: "window d = Some p" by (auto simp: consistent_def)
  define d0 where "d0 = d\<lparr>prefersStore := Some (if b then Dark else Light)\<rparr>"
  define d' where "d' = d0\<lparr>window := Some (p\<lparr>
       classList := classList_toggle ''dark'' (mode d0 = Dark) (classList p),
       colorScheme := (if mode d0 = Dark then ''dark'' else ''light'')\<rparr>)\<rparr>"
  have "listening d" using assms True by (simp add: consistent_def)
  then have r: "dispatchChange b d = Inr d'"
    by (simp add: dispatchChange_def changeListener_inside [OF True p] d'_def d0_def)
  have "domInSync d'"
    by (simp add: domInSync_def classList_toggle_member d'_def)
  moreover have "persisted d' = persisted d"
    by (simp add: persisted_def d'_def p)
  moreover have "consistent d'"
    using assms True by (simp add: consistent_def d'_def d0_def)
  ultimately show ?thesis
    using r True by (simp add: d'_def d0_def)
next
  case False
  with assms show ?thesis by (simp add: dispatchChange_def consistent_def)
qed

lemma toggled_consistent:
  "consistent d \<Longrightarrow> toggled d = Some (case modeStore d of Some m \<Rightarrow> opposite m | None \<Rightarrow> Dark)"
  by (simp add: toggled_def consistent_def split: option.splits)

lemma apply_op_consistent:
  assumes "consistent d"
  shows "\<exists>d'. apply_op x d = Inr d' \<and> consistent d' \<and>
     (prefersStore d \<noteq> None \<longrightarrow> prefersStore d' \<noteq> None)"
proof (cases x)
  case (SetMode m)
  with set_mode_consistent [OF assms, of m] show ?thesis by auto
next
  case Toggle
  with toggle_consistent [OF assms] show ?thesis by auto
next
  case (Change b)
  with dispatchChange_consistent [OF assms, of b] show ?thesis by auto
qed

lemma run_consistent:
  "consistent d \<Longrightarrow>
   \<exists>d'. run ops d = Inr d' \<and> consistent d' \<and>
     (prefersStore d \<noteq> None \<longrightarrow> prefersStore d' \<noteq> None)"
proof (induction ops arbitrary: d)
  case Nil
  then show ?case by simp
next
  case (Cons x xs)
  from apply_op_consistent [OF Cons.prems, of x] obtain d1 where
    d1: "apply_op x d = Inr d1" "consistent d1"
      "prefersStore d \<noteq> None \<longrightarrow> prefersStore d1 \<noteq> None"
    by blast
  from Cons.IH [OF d1(2)] obtain d2 where
    "run xs d1 = Inr d2" "consistent d2" "prefersStore d1 \<noteq> None \<longrightarrow> prefersStore d2 \<noteq> None"
    by blast
  with d1 show ?case by (simp add: andThen_def)
qed

section \<open>Facts about the sample instances\<close>

lemma isBrowser_browserEnv: "isBrowser (browserEnv v dk lt)"
  by (simp add: isBrowser_iff browserEnv_def)

lemma window_browserEnv: "window (browserEnv v dk lt) = Some (freshPage v dk lt)"
  by (simp add: browserEnv_def)

lemma osDarkInstance_constructed: "new_DarkMode (browserEnv None True False) = Inr osDarkInstance"
proof -
  from new_DarkMode_inside [OF isBrowser_browserEnv window_browserEnv, of None True False]
  obtain d where d: "new_DarkMode (browserEnv None True False) = Inr d"
    "modeStore d = None" "prefersStore d = Some Dark" "defaultMode d = Light" "listening d"
    "DEV d = False" "BROWSER d = True"
    "window d = Some ((freshPage None True False)\<lparr>
       classList := classList_toggle ''dark'' (mode d = Dark) [],
       colorScheme := (if mode d = Dark then ''dark'' else ''light'')\<rparr>)"
    by (auto simp: freshPage_def media_def browserEnv_def)
  then have "mode d = Dark" by (simp add: mode_cases)
  with d have "d = osDarkInstance"
    by (cases d) (simp add: osDarkInstance_def classList_toggle_def)
  with d(1) show ?thesis by simp
qed

lemma serverInstance_constructed: "new_DarkMode prodServerEnv = Inr serverInstance"
  by (simp add: new_DarkMode_outside isBrowser_iff prodServerEnv_def serverInstance_def)

lemma consistent_osDarkInstance: "consistent osDarkInstance"
  by (simp add: consistent_def isBrowser_iff osDarkInstance_def)

lemma isBrowser_osDarkInstance: "isBrowser osDarkInstance"
  by (simp add: isBrowser_iff osDarkInstance_def)

lemma toLowerCase_samples:
  "toLowerCase ''DARK'' = ''dark''"
  "toLowerCase ''Light'' = ''light''"
  "toLowerCase ''null'' = ''null''"
  "toLowerCase ''invalid'' = ''invalid''"
  by code_simp+

section \<open>The resolved mode\<close>

text \<open>
  Claim C1. For every explicit choice and every system preference, each of them light,
  dark or unset, the getter \<open>mode\<close> returns the explicit choice if it is set, else the
  system preference if it is set, else the default light. Its result is light or dark,
  never unset. The default is the field \<open>defaultMode\<close>, which holds light in every
  instance.
\<close>

theorem mode_precedence:
  assumes "defaultMode d = Light"
  shows "mode d =
      (case modeStore d of
         Some m \<Rightarrow> m
       | None \<Rightarrow> (case prefersStore d of Some p \<Rightarrow> p | None \<Rightarrow> Light)) \<and>
    (mode d = Light \<or> mode d = Dark)"
proof -
  have "mode d = Light \<or> mode d = Dark"
    by (cases "mode d") simp_all
  moreover have "mode d =
      (case modeStore d of
         Some m \<Rightarrow> m
       | None \<Rightarrow> (case prefersStore d of Some p \<Rightarrow> p | None \<Rightarrow> Light))"
    by (simp add: mode_cases assms split: option.splits)
  ultimately show ?thesis by blast
qed

theorem mode_precedence_witness:
  "defaultMode osDarkInstance = Light \<and> mode osDarkInstance = Dark \<and>
   defaultMode serverInstance = Light \<and> mode serverInstance = Light"
  using mode_precedence [of osDarkInstance] mode_precedence [of serverInstance]
  by (simp add: osDarkInstance_def serverInstance_def)

section \<open>Toggling\<close>

text \<open>
  Claim C2, as the code has it. \<open>toggle\<close> looks at the explicit choice, not at the
  resolved mode: a light choice becomes dark, a dark choice becomes light, and an unset
  choice becomes dark, the opposite of the default, whatever the system prefers. So the
  new explicit choice is the opposite of the resolved mode in every state but one: the
  choice unset while the system prefers dark. After \<open>toggle\<close> the explicit choice is never
  unset.
\<close>

theorem toggle_explicit_choice:
  assumes "consistent d"
  shows "\<exists>d'. toggle d = Inr d' \<and>
     modeStore d' = Some (case modeStore d of Some m \<Rightarrow> opposite m | None \<Rightarrow> Dark) \<and>
     (modeStore d \<noteq> None \<or> prefersStore d \<noteq> Some Dark \<longrightarrow>
        modeStore d' = Some (opposite (mode d)))"
proof -
  from toggle_consistent [OF assms] obtain d' where
    d': "toggle d = Inr d'" "modeStore d' = toggled d"
    by blast
  have dm: "defaultMode d = Light" using assms by (simp add: consistent_def)
  have t: "toggled d = Some (case modeStore d of Some m \<Rightarrow> opposite m | None \<Rightarrow> Dark)"
    by (rule toggled_consistent [OF assms])
  have "modeStore d \<noteq> None \<or> prefersStore d \<noteq> Some Dark \<longrightarrow>
      toggled d = Some (opposite (mode d))"
    using dm by (cases "modeStore d"; cases "prefersStore d")
      (auto simp: t mode_cases theme_neq)
  with d' t show ?thesis by simp
qed

theorem toggle_explicit_choice_witness:
  "consistent osDarkInstance \<and>
   map_sum id modeStore (toggle osDarkInstance) = Inr (Some Dark) \<and>
   consistent serverInstance \<and>
   map_sum id modeStore (toggle serverInstance) = Inr (Some (opposite (mode serverInstance)))"
proof -
  have c: "consistent serverInstance"
    by (simp add: consistent_def isBrowser_iff serverInstance_def)
  show ?thesis
    using toggle_explicit_choice [OF consistent_osDarkInstance] toggle_explicit_choice [OF c]
      consistent_osDarkInstance c
    by (auto simp: osDarkInstance_def serverInstance_def)
qed

text \<open>
  The claim as it was written asks for the opposite of the resolved mode in every state,
  and names this one: explicit choice unset, system preference dark, where \<open>toggle\<close> should
  yield light. The code yields dark there, and the resolved mode stays dark.
\<close>

theorem toggle_from_os_dark:
  "modeStore osDarkInstance = None \<and> prefersStore osDarkInstance = Some Dark \<and>
   mode osDarkInstance = Dark \<and>
   map_sum id modeStore (toggle osDarkInstance) = Inr (Some Dark) \<and>
   map_sum id modeStore (toggle osDarkInstance) \<noteq> Inr (Some Light)"
proof -
  from toggle_consistent [OF consistent_osDarkInstance] obtain d' where
    "toggle osDarkInstance = Inr d'" "modeStore d' = toggled osDarkInstance"
    by blast
  then show ?thesis
    by (simp add: toggled_def mode_cases) (simp add: osDarkInstance_def)
qed

text \<open>
  Claim C3, as the code has it. Two calls of \<open>toggle\<close> in a row bring \<open>mode\<close> back to
  what it was, in every state but the one where the explicit choice is unset and the
  system prefers dark: there the mode is dark before, dark after the first call and
  light after the second. In a browser the persisted entry is present after the first
  call.
\<close>

theorem toggle_twice:
  assumes "consistent d"
  shows "\<exists>d1 d2. toggle d = Inr d1 \<and> toggle d1 = Inr d2 \<and>
     (modeStore d \<noteq> None \<or> prefersStore d \<noteq> Some Dark \<longrightarrow> mode d2 = mode d) \<and>
     (modeStore d = None \<and> prefersStore d = Some Dark \<longrightarrow>
        mode d = Dark \<and> mode d1 = Dark \<and> mode d2 = Light) \<and>
     (isBrowser d \<longrightarrow> persisted d1 \<noteq> None)"
proof -
  from toggle_consistent [OF assms] obtain d1 where
    d1: "toggle d = Inr d1" "consistent d1" "modeStore d1 = toggled d"
      "isBrowser d \<longrightarrow> persisted d1 = map_option token (toggled d)"
    by blast
  from toggle_consistent [OF d1(2)] obtain d2 where
    d2: "toggle d1 = Inr d2" "modeStore d2 = toggled d1"
    by blast
  have dm: "defaultMode d = Light" using assms by (simp add: consistent_def)
  have t: "toggled d = Some (case modeStore d of Some m \<Rightarrow> opposite m | None \<Rightarrow> Dark)"
    by (rule toggled_consistent [OF assms])
  have t1: "toggled d1 = Some (case modeStore d1 of Some m \<Rightarrow> opposite m | None \<Rightarrow> Dark)"
    by (rule toggled_consistent [OF d1(2)])
  have m1: "mode d1 = (case modeStore d of Some m \<Rightarrow> opposite m | None \<Rightarrow> Dark)"
    using d1(3) by (simp add: mode_cases t)
  have m2: "mode d2 = opposite (mode d1)"
    using d2(2) d1(3) by (simp add: mode_cases t1 t)
  have md: "mode d =
      (case modeStore d of
         Some m \<Rightarrow> m
       | None \<Rightarrow> (case prefersStore d of Some p \<Rightarrow> p | None \<Rightarrow> defaultMode d))"
    by (rule mode_cases)
  have returns: "modeStore d \<noteq> None \<or> prefersStore d \<noteq> Some Dark \<longrightarrow> mode d2 = mode d"
    using dm by (cases "modeStore d"; cases "prefersStore d")
      (auto simp: m1 m2 md theme_neq split: theme.splits)
  have stuck: "modeStore d = None \<and> prefersStore d = Some Dark \<longrightarrow>
      mode d = Dark \<and> mode d1 = Dark \<and> mode d2 = Light"
    by (auto simp: m1 m2 md)
  have "isBrowser d \<longrightarrow> persisted d1 \<noteq> None"
    using d1(4) by (simp add: t)
  with d1(1) d2(1) returns stuck show ?thesis by blast
qed

theorem toggle_twice_witness:
  "consistent (osDarkInstance\<lparr>modeStore := Some Light\<rparr>) \<and>
   map_sum id mode
     (andThen (toggle (osDarkInstance\<lparr>modeStore := Some Light\<rparr>)) toggle) = Inr Light \<and>
   map_sum id persisted (toggle (osDarkInstance\<lparr>modeStore := Some Light\<rparr>)) \<noteq> Inr None"
proof -
  have c: "consistent (osDarkInstance\<lparr>modeStore := Some Light\<rparr>)"
    by (simp add: consistent_def isBrowser_iff osDarkInstance_def)
  have b: "isBrowser (osDarkInstance\<lparr>modeStore := Some Light\<rparr>)"
    by (simp add: isBrowser_osDarkInstance)
  have m: "mode (osDarkInstance\<lparr>modeStore := Some Light\<rparr>) = Light"
    by (simp add: mode_cases)
  show ?thesis
    using toggle_twice [OF c] c b m by (auto simp: andThen_def)
qed

text \<open>
  The claim as it was written promises the return of \<open>mode\<close> from every starting state.
  From the instance with no explicit choice on a system that prefers dark, the mode is
  dark before the two calls and light after them. And it promises an entry after the
  first call from every starting state: in the instance on a production server \<open>store\<close>
  does nothing, and no entry exists after \<open>toggle\<close>.
\<close>

theorem toggle_twice_from_os_dark:
  "mode osDarkInstance = Dark \<and>
   map_sum id mode (andThen (toggle osDarkInstance) toggle) = Inr Light \<and>
   map_sum id persisted (toggle serverInstance) = Inr None"
proof -
  have s: "map_sum id persisted (toggle serverInstance) = Inr None"
    by (simp add: toggle_set_mode set_mode_outside isBrowser_iff persisted_def serverInstance_def)
  from toggle_consistent [OF consistent_osDarkInstance] obtain d1 where
    d1: "toggle osDarkInstance = Inr d1" "consistent d1" "modeStore d1 = toggled osDarkInstance"
    by blast
  from toggle_consistent [OF d1(2)] obtain d2 where
    d2: "toggle d1 = Inr d2" "modeStore d2 = toggled d1"
    by blast
  have "modeStore d1 = Some Dark"
    using d1(3) by (simp add: toggled_def osDarkInstance_def)
  then have "modeStore d2 = Some Light"
    using d2(2) by (simp add: toggled_def)
  then have "mode d2 = Light" by (simp add: mode_cases)
  moreover have "mode osDarkInstance = Dark"
    by (simp add: mode_cases osDarkInstance_def)
  ultimately show ?thesis
    using d1(1) d2(1) s by (simp add: andThen_def)
qed

section \<open>Reading the system preference\<close>

text \<open>
  Claim C4, as the code has it. In a browser \<open>getPrefersMode\<close> asks the dark query
  first: if it matches the result is dark, whatever the light query says; else if the
  light query matches the result is light; else it is unset. So dark alone gives dark,
  light alone gives light, neither gives unset, and both together give dark.
\<close>

theorem prefers_mode_mapping:
  assumes "isBrowser e" and "window e = Some p"
  shows
    "(matchMedia p ''(prefers-color-scheme: dark)'' \<and>
        \<not> matchMedia p ''(prefers-color-scheme: light)'' \<longrightarrow>
          getPrefersMode e = Inr (Some Dark)) \<and>
     (\<not> matchMedia p ''(prefers-color-scheme: dark)'' \<and>
        matchMedia p ''(prefers-color-scheme: light)'' \<longrightarrow>
          getPrefersMode e = Inr (Some Light)) \<and>
     (\<not> matchMedia p ''(prefers-color-scheme: dark)'' \<and>
        \<not> matchMedia p ''(prefers-color-scheme: light)'' \<longrightarrow>
          getPrefersMode e = Inr None) \<and>
     (matchMedia p ''(prefers-color-scheme: dark)'' \<and>
        matchMedia p ''(prefers-color-scheme: light)'' \<longrightarrow>
          getPrefersMode e = Inr (Some Dark))"
  by (simp add: getPrefersMode_inside [OF assms])

theorem prefers_mode_mapping_witness:
  "isBrowser (browserEnv None False True) \<and>
   window (browserEnv None False True) = Some (freshPage None False True) \<and>
   getPrefersMode (browserEnv None False True) = Inr (Some Light)"
  using prefers_mode_mapping [OF isBrowser_browserEnv window_browserEnv, of None False True]
  by (simp add: isBrowser_browserEnv window_browserEnv freshPage_def media_def)

text \<open>
  The claim as it was written sends both queries matching to unset. The code answers
  dark.
\<close>

theorem prefers_mode_both_match:
  "matchMedia (freshPage None True True) ''(prefers-color-scheme: dark)'' \<and>
   matchMedia (freshPage None True True) ''(prefers-color-scheme: light)'' \<and>
   getPrefersMode (browserEnv None True True) = Inr (Some Dark) \<and>
   getPrefersMode (browserEnv None True True) \<noteq> Inr None"
  by (simp add: getPrefersMode_inside [OF isBrowser_browserEnv window_browserEnv]
        freshPage_def media_def)

section \<open>Persistence\<close>

text \<open>
  Claim C5, as the code has it. In a browser, after every completed call of the setter
  and of \<open>toggle\<close> the persisted entry is the lowercase token of the explicit choice when
  that is light or dark, and it is absent exactly when the explicit choice is unset; a
  change of the system preference leaves both as they are; so the entry never shows
  the system preference or the resolved mode. The constructor reads the entry and never
  writes it: after construction the entry is what it was before.
\<close>

theorem persisted_follows_explicit_choice:
  assumes "consistent d" and "isBrowser d"
  shows
    "(\<exists>d'. set_mode m d = Inr d' \<and> modeStore d' = m \<and>
        persisted d' = map_option token m \<and> (persisted d' = None) = (m = None)) \<and>
     (\<exists>d'. toggle d = Inr d' \<and>
        persisted d' = map_option token (modeStore d') \<and>
        (persisted d' = None) = (modeStore d' = None)) \<and>
     (\<exists>d'. dispatchChange b d = Inr d' \<and> modeStore d' = modeStore d \<and>
        persisted d' = persisted d) \<and>
     (displayContext e \<longrightarrow>
        (\<exists>d0. new_DarkMode e = Inr d0 \<and> persisted d0 = persisted e))"
proof -
  from set_mode_consistent [OF assms(1), of m] assms(2)
  have a: "\<exists>d'. set_mode m d = Inr d' \<and> modeStore d' = m \<and>
        persisted d' = map_option token m \<and> (persisted d' = None) = (m = None)"
    by auto
  from toggle_consistent [OF assms(1)] assms(2)
  have b: "\<exists>d'. toggle d = Inr d' \<and>
        persisted d' = map_option token (modeStore d') \<and>
        (persisted d' = None) = (modeStore d' = None)"
    by auto
  from dispatchChange_consistent [OF assms(1), of b]
  have c: "\<exists>d'. dispatchChange b d = Inr d' \<and> modeStore d' = modeStore d \<and>
        persisted d' = persisted d"
    by auto
  have n: "displayContext e \<longrightarrow>
        (\<exists>d0. new_DarkMode e = Inr d0 \<and> persisted d0 = persisted e)"
  proof
    assume h: "displayContext e"
    then obtain p where p: "window e = Some p" by (auto simp: displayContext_def)
    from h have i: "isBrowser e" by (simp add: displayContext_def)
    from new_DarkMode_inside [OF i p] obtain d0 where
      "new_DarkMode e = Inr d0"
      "window d0 = Some (p\<lparr>
         classList := classList_toggle ''dark'' (mode d0 = Dark) (classList p),
         colorScheme := (if mode d0 = Dark then ''dark'' else ''light'')\<rparr>)"
      by blast
    then show "\<exists>d0. new_DarkMode e = Inr d0 \<and> persisted d0 = persisted e"
      by (simp add: persisted_def p)
  qed
  from a b c n show ?thesis by blast
qed

theorem persisted_follows_explicit_choice_witness:
  "consistent osDarkInstance \<and> isBrowser osDarkInstance \<and>
   displayContext (browserEnv (Some ''DARK'') False False) \<and>
   map_sum id persisted (set_mode (Some Light) osDarkInstance) = Inr (Some ''light'') \<and>
   map_sum id persisted (set_mode None osDarkInstance) = Inr None \<and>
   map_sum id persisted (new_DarkMode (browserEnv (Some ''DARK'') False False)) =
     Inr (Some ''DARK'')"
proof -
  note c = consistent_osDarkInstance and b = isBrowser_osDarkInstance
  have p: "persisted (browserEnv (Some ''DARK'') False False) = Some ''DARK''"
    by (simp add: persisted_def browserEnv_def freshPage_def)
  show ?thesis
    using persisted_follows_explicit_choice
        [OF c b, of "Some Light" False "browserEnv (Some ''DARK'') False False"]
      persisted_follows_explicit_choice
        [OF c b, of None False "browserEnv (Some ''DARK'') False False"]
      c b p
    by (auto simp: displayContext_def isBrowser_browserEnv window_browserEnv)
qed

text \<open>
  The claim as it was written covers the moment after construction too. With the entry
  \<^verbatim>\<open>invalid\<close> on the page the constructor leaves the explicit choice unset and the entry
  where it is: persisted, though no explicit choice is set. And it covers every
  instance: on a production server the setter stores the explicit choice dark in the
  field and persists nothing.
\<close>

theorem persisted_after_construction:
  "map_sum id modeStore (new_DarkMode (browserEnv (Some ''invalid'') False False)) = Inr None \<and>
   map_sum id persisted (new_DarkMode (browserEnv (Some ''invalid'') False False)) =
     Inr (Some ''invalid'') \<and>
   map_sum id modeStore (set_mode (Some Dark) serverInstance) = Inr (Some Dark) \<and>
   map_sum id persisted (set_mode (Some Dark) serverInstance) = Inr None"
proof -
  have s: "map_sum id modeStore (set_mode (Some Dark) serverInstance) = Inr (Some Dark) \<and>
      map_sum id persisted (set_mode (Some Dark) serverInstance) = Inr None"
    by (simp add: set_mode_outside isBrowser_iff persisted_def serverInstance_def)
  from new_DarkMode_inside [OF isBrowser_browserEnv window_browserEnv, of "Some ''invalid''" False False]
  obtain d where
    "new_DarkMode (browserEnv (Some ''invalid'') False False) = Inr d"
    "modeStore d = accepted (localStorage (freshPage (Some ''invalid'') False False) ''dark-mode'')"
    "window d = Some ((freshPage (Some ''invalid'') False False)\<lparr>
       classList := classList_toggle ''dark'' (mode d = Dark)
         (classList (freshPage (Some ''invalid'') False False)),
       colorScheme := (if mode d = Dark then ''dark'' else ''light'')\<rparr>)"
    by blast
  with s show ?thesis
    by (simp add: persisted_def freshPage_def toLowerCase_samples)
qed

text \<open>
  Claim C7. In a browser, whatever string the persisted entry holds at construction, the
  read accepts exactly the tokens \<^verbatim>\<open>light\<close> and \<^verbatim>\<open>dark\<close> after case folding, and every
  other content leaves the explicit choice unset, as an absent entry does: \<open>load\<close>,
  \<open>getInitialMode\<close> and the field \<open>modeStore\<close> of the new instance all are \<open>accepted\<close> of
  the entry. So \<^verbatim>\<open>DARK\<close> gives dark, and the empty string, \<^verbatim>\<open>null\<close> and \<^verbatim>\<open>invalid\<close>
  give unset.
\<close>

theorem persisted_entry_read:
  assumes "isBrowser e" and "window e = Some p"
  shows
    "load e = Inr (accepted (localStorage p ''dark-mode'')) \<and>
     getInitialMode e = Inr (accepted (localStorage p ''dark-mode'')) \<and>
     (\<exists>d. new_DarkMode e = Inr d \<and> modeStore d = accepted (localStorage p ''dark-mode'')) \<and>
     accepted (Some ''DARK'') = Some Dark \<and>
     accepted (Some []) = accepted None \<and>
     accepted (Some ''null'') = accepted None \<and>
     accepted (Some ''invalid'') = accepted None"
proof -
  from new_DarkMode_inside [OF assms]
  have "\<exists>d. new_DarkMode e = Inr d \<and> modeStore d = accepted (localStorage p ''dark-mode'')"
    by blast
  then show ?thesis
    by (simp add: getInitialMode_load load_inside [OF assms] toLowerCase_samples)
qed

theorem persisted_entry_read_witness:
  "isBrowser (browserEnv (Some ''DARK'') False True) \<and>
   window (browserEnv (Some ''DARK'') False True) = Some (freshPage (Some ''DARK'') False True) \<and>
   getInitialMode (browserEnv (Some ''DARK'') False True) = Inr (Some Dark) \<and>
   map_sum id modeStore (new_DarkMode (browserEnv (Some ''DARK'') False True)) = Inr (Some Dark) \<and>
   map_sum id mode (new_DarkMode (browserEnv (Some ''DARK'') False True)) = Inr Dark"
  using persisted_entry_read
    [OF isBrowser_browserEnv window_browserEnv, of "Some ''DARK''" False True]
  by (auto simp: isBrowser_browserEnv window_browserEnv freshPage_def mode_cases)

section \<open>The root element\<close>

text \<open>
  Claim C6. When a display context exists, the root element carries the class token
  \<^verbatim>\<open>dark\<close> if and only if the resolved mode is dark, and its colour scheme is the
  string \<^verbatim>\<open>dark\<close> for dark and \<^verbatim>\<open>light\<close> otherwise: after construction and after
  every call of the setter, of \<open>toggle\<close> and of the listener for a change of the system
  preference. Each of these is one function of the model, so the state it returns has
  the field and the root element changed together.
\<close>

theorem dom_follows_mode:
  "(displayContext e \<longrightarrow> (\<exists>d0. new_DarkMode e = Inr d0 \<and> domInSync d0)) \<and>
   (consistent d \<and> displayContext d \<longrightarrow>
      (\<exists>d'. set_mode m d = Inr d' \<and> domInSync d') \<and>
      (\<exists>d'. toggle d = Inr d' \<and> domInSync d') \<and>
      (\<exists>d'. dispatchChange b d = Inr d' \<and> domInSync d'))"
proof -
  have n: "displayContext e \<longrightarrow> (\<exists>d0. new_DarkMode e = Inr d0 \<and> domInSync d0)"
  proof
    assume h: "displayContext e"
    then obtain p where p: "window e = Some p" by (auto simp: displayContext_def)
    from h have i: "isBrowser e" by (simp add: displayContext_def)
    from new_DarkMode_inside [OF i p] obtain d0 where
      "new_DarkMode e = Inr d0"
      "window d0 = Some (p\<lparr>
         classList := classList_toggle ''dark'' (mode d0 = Dark) (classList p),
         colorScheme := (if mode d0 = Dark then ''dark'' else ''light'')\<rparr>)"
      by blast
    then show "\<exists>d0. new_DarkMode e = Inr d0 \<and> domInSync d0"
      by (simp add: domInSync_def classList_toggle_member)
  qed
  have o: "consistent d \<and> displayContext d \<longrightarrow>
      (\<exists>d'. set_mode m d = Inr d' \<and> domInSync d') \<and>
      (\<exists>d'. toggle d = Inr d' \<and> domInSync d') \<and>
      (\<exists>d'. dispatchChange b d = Inr d' \<and> domInSync d')"
  proof
    assume h: "consistent d \<and> displayContext d"
    then have c: "consistent d" and i: "isBrowser d" by (simp_all add: displayContext_def)
    from set_mode_consistent [OF c, of m] i
    have "\<exists>d'. set_mode m d = Inr d' \<and> domInSync d'" by auto
    moreover from toggle_consistent [OF c] i
    have "\<exists>d'. toggle d = Inr d' \<and> domInSync d'" by auto
    moreover from dispatchChange_consistent [OF c, of b] i
    have "\<exists>d'. dispatchChange b d = Inr d' \<and> domInSync d'" by auto
    ultimately show "(\<exists>d'. set_mode m d = Inr d' \<and> domInSync d') \<and>
      (\<exists>d'. toggle d = Inr d' \<and> domInSync d') \<and>
      (\<exists>d'. dispatchChange b d = Inr d' \<and> domInSync d')"
      by blast
  qed
  from n o show ?thesis by blast
qed

theorem dom_follows_mode_witness:
  "displayContext (browserEnv None True False) \<and>
   consistent osDarkInstance \<and> displayContext osDarkInstance \<and>
   map_sum id domInSync (new_DarkMode (browserEnv None True False)) = Inr True \<and>
   map_sum id domInSync (set_mode (Some Light) osDarkInstance) = Inr True \<and>
   map_sum id domInSync (toggle osDarkInstance) = Inr True \<and>
   map_sum id domInSync (dispatchChange False osDarkInstance) = Inr True"
proof -
  have e: "displayContext (browserEnv None True False)"
    by (simp add: displayContext_def isBrowser_browserEnv window_browserEnv)
  have d: "displayContext osDarkInstance"
    by (simp add: displayContext_def isBrowser_osDarkInstance) (simp add: osDarkInstance_def)
  show ?thesis
    using dom_follows_mode [of "browserEnv None True False" osDarkInstance "Some Light" False]
      consistent_osDarkInstance e d
    by auto
qed

section \<open>Outside a browser\<close>

text \<open>
  Claim C8, as the code has it. The code decides by \<open>isBrowser\<close> alone, which holds in
  every development build. When \<open>isBrowser\<close> does not hold (both flags are off),
  \<open>updateDOM\<close> and \<open>store\<close> return the state as it
  is, \<open>load\<close>, \<open>getInitialMode\<close> and \<open>getPrefersMode\<close> return unset, none of them throws,
  the setter and \<open>toggle\<close> change the field \<open>modeStore\<close> and nothing else, and the
  constructor builds an instance with both fields unset and no listener, whose mode is
  light.
\<close>

theorem outside_browser_noops:
  "(\<not> isBrowser e \<longrightarrow>
      new_DarkMode e =
        Inr \<lparr>DEV = DEV e, BROWSER = BROWSER e, window = window e, defaultMode = Light,
             modeStore = None, prefersStore = None, listening = False\<rparr>) \<and>
   (\<not> isBrowser d \<longrightarrow>
      updateDOM d = Inr d \<and> store d = Inr d \<and> load d = Inr None \<and>
      getInitialMode d = Inr None \<and> getPrefersMode d = Inr None \<and>
      set_mode m d = Inr (d\<lparr>modeStore := m\<rparr>) \<and>
      toggle d = Inr (d\<lparr>modeStore := toggled d\<rparr>) \<and>
      dispatchChange matches d =
        (if listening d then Inr (d\<lparr>prefersStore := Some (if matches then Dark else Light)\<rparr>)
         else Inr d) \<and>
      mode (d\<lparr>modeStore := m\<rparr>) =
        (case m of
           Some x \<Rightarrow> x
         | None \<Rightarrow> (case prefersStore d of Some y \<Rightarrow> y | None \<Rightarrow> defaultMode d)))"
  by (simp add: new_DarkMode_outside updateDOM_outside store_outside load_outside
        getInitialMode_load getPrefersMode_outside set_mode_outside toggle_set_mode
        dispatchChange_def changeListener_outside mode_cases split: option.splits)

theorem outside_browser_noops_witness:
  "\<not> isBrowser prodServerEnv \<and> \<not> isBrowser serverInstance \<and>
   new_DarkMode prodServerEnv = Inr serverInstance \<and>
   updateDOM serverInstance = Inr serverInstance \<and>
   store serverInstance = Inr serverInstance \<and>
   load serverInstance = Inr None \<and>
   getPrefersMode serverInstance = Inr None \<and>
   set_mode (Some Dark) serverInstance = Inr (serverInstance\<lparr>modeStore := Some Dark\<rparr>) \<and>
   mode (serverInstance\<lparr>modeStore := Some Dark\<rparr>) = Dark"
proof -
  have e: "\<not> isBrowser prodServerEnv"
    by (simp add: isBrowser_iff prodServerEnv_def)
  have d: "\<not> isBrowser serverInstance"
    by (simp add: isBrowser_iff serverInstance_def)
  show ?thesis
    using outside_browser_noops [of prodServerEnv serverInstance "Some Dark" False] e d
    by (simp add: prodServerEnv_def serverInstance_def)
qed

text \<open>
  The claim as it was written speaks of every situation without a display context. In a
  development build \<open>isBrowser\<close> holds without looking at the environment; on a server,
  where no global exists, the first guarded access then raises: the reads and
  \<open>updateDOM\<close> throw, and so does the constructor.
\<close>

theorem dev_server_throws:
  "\<not> displayContext devServerEnv \<and>
   load devServerEnv = Inl ReferenceError \<and>
   getPrefersMode devServerEnv = Inl ReferenceError \<and>
   updateDOM (serverInstance\<lparr>DEV := True\<rparr>) = Inl ReferenceError \<and>
   store (serverInstance\<lparr>DEV := True\<rparr>) = Inl ReferenceError \<and>
   new_DarkMode devServerEnv = Inl ReferenceError"
  by (simp add: devServerEnv_def serverInstance_def load_def getPrefersMode_def updateDOM_def
        store_def new_DarkMode_def getInitialMode_load andThen_def isBrowser_iff
        displayContext_def)

section \<open>Changes of the system preference\<close>

text \<open>
  Claim C9. With the explicit choice unset, in an instance whose listener is registered,
  a change event whose \<^verbatim>\<open>matches\<close> is true makes \<open>mode\<close> return dark, and a following
  event whose \<^verbatim>\<open>matches\<close> is false makes it return light, with no other call in between.
\<close>

theorem os_change_followed:
  assumes "consistent d" and "isBrowser d" and "modeStore d = None"
  shows "\<exists>d1 d2. dispatchChange True d = Inr d1 \<and> mode d1 = Dark \<and>
     dispatchChange False d1 = Inr d2 \<and> mode d2 = Light"
proof -
  from dispatchChange_consistent [OF assms(1), of True] assms(2,3) obtain d1 where
    d1: "dispatchChange True d = Inr d1" "consistent d1" "modeStore d1 = None"
      "prefersStore d1 = Some Dark" "isBrowser d1"
    by auto
  from dispatchChange_consistent [OF d1(2), of False] d1(3,5) obtain d2 where
    d2: "dispatchChange False d1 = Inr d2" "modeStore d2 = None" "prefersStore d2 = Some Light"
    by auto
  have "mode d1 = Dark" using d1(3,4) by (simp add: mode_cases)
  moreover have "mode d2 = Light" using d2(2,3) by (simp add: mode_cases)
  ultimately show ?thesis using d1(1) d2(1) by blast
qed

theorem os_change_followed_witness:
  "consistent osDarkInstance \<and> isBrowser osDarkInstance \<and> modeStore osDarkInstance = None \<and>
   map_sum id mode (dispatchChange True osDarkInstance) = Inr Dark \<and>
   map_sum id mode (andThen (dispatchChange True osDarkInstance) (dispatchChange False)) =
     Inr Light"
proof -
  have m: "modeStore osDarkInstance = None" by (simp add: osDarkInstance_def)
  show ?thesis
    using os_change_followed [OF consistent_osDarkInstance isBrowser_osDarkInstance m]
      consistent_osDarkInstance isBrowser_osDarkInstance m
    by (auto simp: andThen_def)
qed

text \<open>
  Claim C10. The listener takes the system preference from the event alone: true gives
  dark, false gives light. So once an event has been handled the system preference is
  set, and it stays set through every later sequence of calls of the setter, of \<open>toggle\<close>
  and of further events; from then on, while the explicit choice is unset, \<open>mode\<close> is the
  system preference whatever the default would be. The first read at construction,
  in contrast, can yield unset.
\<close>

theorem os_preference_stays_set:
  assumes "consistent d" and "isBrowser d"
  shows "\<exists>d1. dispatchChange b d = Inr d1 \<and>
     prefersStore d1 = Some (if b then Dark else Light) \<and>
     (\<forall>ops. \<exists>d2 p. run ops d1 = Inr d2 \<and> prefersStore d2 = Some p \<and>
        (modeStore d2 = None \<longrightarrow> (\<forall>dm. mode (d2\<lparr>defaultMode := dm\<rparr>) = p))) \<and>
     getPrefersMode (browserEnv None False False) = Inr None"
proof -
  from dispatchChange_consistent [OF assms(1), of b] assms(2) obtain d1 where
    d1: "dispatchChange b d = Inr d1" "consistent d1"
      "prefersStore d1 = Some (if b then Dark else Light)"
    by auto
  have later: "\<exists>d2 p. run ops d1 = Inr d2 \<and> prefersStore d2 = Some p \<and>
        (modeStore d2 = None \<longrightarrow> (\<forall>dm. mode (d2\<lparr>defaultMode := dm\<rparr>) = p))" for ops
  proof -
    from run_consistent [OF d1(2), of ops] d1(3) obtain d2 p where
      d2: "run ops d1 = Inr d2" "prefersStore d2 = Some p"
      by auto
    show ?thesis
      by (rule exI [of _ d2], rule exI [of _ p]) (simp add: d2 mode_cases)
  qed
  have "getPrefersMode (browserEnv None False False) = Inr None"
    by (simp add: getPrefersMode_inside [OF isBrowser_browserEnv window_browserEnv]
          freshPage_def media_def)
  with d1(1,3) later show ?thesis by blast
qed

theorem os_preference_stays_set_witness:
  "consistent osDarkInstance \<and> isBrowser osDarkInstance \<and>
   map_sum id prefersStore (dispatchChange False osDarkInstance) = Inr (Some Light) \<and>
   map_sum id prefersStore
     (andThen (dispatchChange False osDarkInstance) (run [Toggle, SetMode None])) \<noteq> Inr None"
proof -
  from os_preference_stays_set
    [OF consistent_osDarkInstance isBrowser_osDarkInstance, of False]
  obtain d1 where
    d1: "dispatchChange False osDarkInstance = Inr d1" "prefersStore d1 = Some Light"
      "\<forall>ops. \<exists>d2 p. run ops d1 = Inr d2 \<and> prefersStore d2 = Some p \<and>
        (modeStore d2 = None \<longrightarrow> (\<forall>dm. mode (d2\<lparr>defaultMode := dm\<rparr>) = p))"
    by auto
  from d1(3) obtain d2 p where
    "run [Toggle, SetMode None] d1 = Inr d2" "prefersStore d2 = Some p"
    by blast
  with d1(1,2) consistent_osDarkInstance isBrowser_osDarkInstance show ?thesis
    by (simp add: andThen_def)
qed

end
